theory Spec2Isabelle
  imports Complex_Main "HOL-Library.Word"
begin

section \<open>JavaScript values\<close>

text \<open>
  The two entry points, \<^verbatim>\<open>server.js\<close> and \<^verbatim>\<open>integrated-server.js\<close>, are
  JavaScript. A JavaScript string is a sequence of 16-bit code units; \<open>str\<close>
  embeds an ASCII literal of the source.
\<close>

type_synonym jschar = "16 word"
type_synonym jsstring = "jschar list"

definition str :: "string \<Rightarrow> jsstring" where
  "str s = map of_char s"

text \<open>
  A number is NaN, an infinity, or finite. A finite number is kept as the rational it
  denotes: every binary64 value is one, comparison of binary64 values is comparison of
  these rationals, and nothing below does arithmetic on numbers.
\<close>

datatype jsnum = NaN | NegInf | Fin rat | PosInf

text \<open>
  The values that reach the handlers are what a JSON body or an SDK result holds, and
  \<open>undefined\<close> for a property that is absent. An object is the list of its
  properties.
\<close>

datatype jsval =
    JUndefined
  | JNull
  | JBool bool
  | JNum jsnum
  | JStr jsstring
  | JArr "jsval list"
  | JObj "(jsstring \<times> jsval) list"

text \<open>A thrown \<open>Error\<close>; \<open>message\<close> is its \<open>error.message\<close>.\<close>

datatype js_error = JsError (message: jsstring)

text \<open>
  Property read \<open>obj.k\<close> on the properties of an object, whose keys are distinct:
  \<open>undefined\<close> when absent.
\<close>

definition get_prop :: "(jsstring \<times> jsval) list \<Rightarrow> jsstring \<Rightarrow> jsval" where
  "get_prop ps k = (case map_of ps k of None \<Rightarrow> JUndefined | Some v \<Rightarrow> v)"

text \<open>
  The coercions of the language that the handlers rely on implicitly. ToNumber and
  ToString of \<open>undefined\<close>, \<open>null\<close>, booleans (and ToNumber of a number, ToString
  of a string) are fixed by the language and written out. The remaining cases
  (parsing a string as a number, printing a number, and converting an array or an
  object to a primitive, which can throw a TypeError) belong to the engine and are
  parameters: every theorem below holds for every engine.
\<close>

record engine =
  ToNumber_rt :: "jsval \<Rightarrow> js_error + jsnum"
  ToString_rt :: "jsval \<Rightarrow> js_error + jsstring"

fun ToNumber :: "engine \<Rightarrow> jsval \<Rightarrow> js_error + jsnum" where
  "ToNumber eng JUndefined = Inr NaN"
| "ToNumber eng JNull = Inr (Fin 0)"
| "ToNumber eng (JBool b) = Inr (Fin (if b then 1 else 0))"
| "ToNumber eng (JNum x) = Inr x"
| "ToNumber eng v = ToNumber_rt eng v"

fun ToString :: "engine \<Rightarrow> jsval \<Rightarrow> js_error + jsstring" where
  "ToString eng JUndefined = Inr (str ''undefined'')"
| "ToString eng JNull = Inr (str ''null'')"
| "ToString eng (JBool b) = Inr (if b then str ''true'' else str ''false'')"
| "ToString eng (JStr s) = Inr s"
| "ToString eng v = ToString_rt eng v"

text \<open>ToBoolean, for \<open>c ? a : b\<close>, \<open>a || b\<close> and \<open>if (c)\<close>.\<close>

fun truthy :: "jsval \<Rightarrow> bool" where
  "truthy JUndefined = False"
| "truthy JNull = False"
| "truthy (JBool b) = b"
| "truthy (JNum NaN) = False"
| "truthy (JNum (Fin x)) = (x \<noteq> 0)"
| "truthy (JNum _) = True"
| "truthy (JStr s) = (s \<noteq> [])"
| "truthy (JArr _) = True"
| "truthy (JObj _) = True"

text \<open>\<open>x >= k\<close> on numbers: false when \<open>x\<close> is NaN.\<close>

fun num_ge :: "jsnum \<Rightarrow> rat \<Rightarrow> bool" where
  "num_ge NaN k = False"
| "num_ge NegInf k = False"
| "num_ge (Fin x) k = (k \<le> x)"
| "num_ge PosInf k = True"

text \<open>\<open>v >= k\<close> for a numeric literal \<open>k\<close>: the left operand goes through ToNumber.\<close>

definition js_ge :: "engine \<Rightarrow> jsval \<Rightarrow> rat \<Rightarrow> js_error + bool" where
  "js_ge eng v k = (case ToNumber eng v of Inl e \<Rightarrow> Inl e | Inr x \<Rightarrow> Inr (num_ge x k))"

section \<open>JSON.parse\<close>

text \<open>
  \<^verbatim>\<open>JSON.parse\<close> is the engine's; it is written out here after the JSON grammar of
  the language standard, so that the handlers can be evaluated on a reply. A text is
  cut into tokens, and the tokens are read by a machine with a stack of the arrays
  and objects that are still open. \<open>None\<close> is the SyntaxError that
  \<^verbatim>\<open>JSON.parse\<close> throws. A number literal is read as the rational it
  denotes (its rounding to binary64 is left out), and an object keeps its
  properties in the order of the text.
\<close>

text \<open>
  The tokens: the six structural characters, a string, and a literal (a number,
  \<^verbatim>\<open>true\<close>, \<^verbatim>\<open>false\<close> or \<^verbatim>\<open>null\<close>) with its value.
\<close>

datatype token = TLBrace | TRBrace | TLBracket | TRBracket | TComma | TColon
  | TString jsstring | TLit jsval

text \<open>
  JSON white space is the space, the tab, the line feed and the carriage return.
\<close>

definition is_ws :: "jschar \<Rightarrow> bool" where
  "is_ws c = (c = 0x20 \<or> c = 0x09 \<or> c = 0x0A \<or> c = 0x0D)"

definition is_digit :: "jschar \<Rightarrow> bool" where
  "is_digit c = (0x30 \<le> c \<and> c \<le> 0x39)"

text \<open>
  Escapes in a string: \<^verbatim>\<open>\" \\ \/ \b \f \n \r \t\<close> and \<^verbatim>\<open>\u\<close> with four
  hexadecimal digits, which gives one code unit.
\<close>

definition hex_value :: "jschar \<Rightarrow> nat option" where
  "hex_value c =
     (if 0x30 \<le> c \<and> c \<le> 0x39 then Some (unat c - 0x30)
      else if 0x41 \<le> c \<and> c \<le> 0x46 then Some (unat c - 0x41 + 10)
      else if 0x61 \<le> c \<and> c \<le> 0x66 then Some (unat c - 0x61 + 10)
      else None)"

definition simple_escape :: "jschar \<Rightarrow> jschar option" where
  "simple_escape c =
     (if c = 0x22 then Some 0x22
      else if c = 0x5C then Some 0x5C
      else if c = 0x2F then Some 0x2F
      else if c = 0x62 then Some 0x08
      else if c = 0x66 then Some 0x0C
      else if c = 0x6E then Some 0x0A
      else if c = 0x72 then Some 0x0D
      else if c = 0x74 then Some 0x09
      else None)"

definition unicode_escape :: "jsstring \<Rightarrow> jschar option" where
  "unicode_escape hs =
     (case map hex_value hs of
        [Some a, Some b, Some c, Some d] \<Rightarrow> Some (of_nat (((a * 16 + b) * 16 + c) * 16 + d))
      | _ \<Rightarrow> None)"

text \<open>
  The characters of a string after its opening quote, up to the closing quote, and
  the rest of the text. A control character below U+0020, an unknown escape and a
  missing closing quote are errors.
\<close>

fun string_body :: "jsstring \<Rightarrow> (jsstring \<times> jsstring) option" where
  "string_body [] = None"
| "string_body (c # cs) =
     (if c = 0x22 then Some ([], cs)
      else if c < 0x20 then None
      else if c \<noteq> 0x5C then map_option (apfst ((#) c)) (string_body cs)
      else (case cs of
          [] \<Rightarrow> None
        | e # r \<Rightarrow>
            if e = 0x75 then
              (case unicode_escape (take 4 r) of
                 None \<Rightarrow> None
               | Some u \<Rightarrow> map_option (apfst ((#) u)) (string_body (drop 4 r)))
            else
              (case simple_escape e of
                 None \<Rightarrow> None
               | Some u \<Rightarrow> map_option (apfst ((#) u)) (string_body r))))"

text \<open>
  A number: an optional minus sign; \<^verbatim>\<open>0\<close>, or a digit from 1 to 9 and further
  digits; an optional fraction, a point and at least one digit; an optional
  exponent, \<^verbatim>\<open>e\<close> or \<^verbatim>\<open>E\<close>, an optional sign and at least one digit.
\<close>

definition digits_value :: "jsstring \<Rightarrow> nat" where
  "digits_value ds = foldl (\<lambda>a c. 10 * a + (unat c - 0x30)) 0 ds"

definition scale10 :: "rat \<Rightarrow> int \<Rightarrow> rat" where
  "scale10 x e = (if 0 \<le> e then x * 10 ^ nat e else x / 10 ^ nat (- e))"

definition lex_sign :: "jsstring \<Rightarrow> bool \<times> jsstring" where
  "lex_sign cs = (case cs of c # r \<Rightarrow> if c = 0x2D then (True, r) else (False, cs) | [] \<Rightarrow> (False, cs))"

definition lex_int :: "jsstring \<Rightarrow> (jsstring \<times> jsstring) option" where
  "lex_int cs =
     (case cs of
        [] \<Rightarrow> None
      | c # r \<Rightarrow>
          if c = 0x30 then Some ([c], r)
          else if is_digit c then Some (takeWhile is_digit cs, dropWhile is_digit cs)
          else None)"

definition lex_frac :: "jsstring \<Rightarrow> (jsstring \<times> jsstring) option" where
  "lex_frac cs =
     (case cs of
        c # r \<Rightarrow>
          if c = 0x2E then
            (if takeWhile is_digit r = [] then None
             else Some (takeWhile is_digit r, dropWhile is_digit r))
          else Some ([], cs)
      | [] \<Rightarrow> Some ([], cs))"

definition lex_exp :: "jsstring \<Rightarrow> (int \<times> jsstring) option" where
  "lex_exp cs =
     (case cs of
        c # r \<Rightarrow>
          if c = 0x65 \<or> c = 0x45 then
            (let (neg, r') = (case r of s # t \<Rightarrow> if s = 0x2D then (True, t) else if s = 0x2B then (False, t) else (False, r) | [] \<Rightarrow> (False, r))
             in if takeWhile is_digit r' = [] then None
                else Some ((if neg then - 1 else 1) * int (digits_value (takeWhile is_digit r')),
                           dropWhile is_digit r'))
          else Some (0, cs)
      | [] \<Rightarrow> Some (0, cs))"

definition lex_number :: "jsstring \<Rightarrow> (rat \<times> jsstring) option" where
  "lex_number cs =
     (let (neg, r0) = lex_sign cs in
      case lex_int r0 of None \<Rightarrow> None | Some (ip, r1) \<Rightarrow>
      case lex_frac r1 of None \<Rightarrow> None | Some (fp, r2) \<Rightarrow>
      case lex_exp r2 of None \<Rightarrow> None | Some (e, r3) \<Rightarrow>
        Some ((if neg then - 1 else 1) *
                scale10 (of_nat (digits_value (ip @ fp))) (e - int (length fp)), r3))"

lemma string_body_shorter: "string_body cs = Some (s, r) \<Longrightarrow> length r < length cs"
proof (induction cs arbitrary: s r rule: string_body.induct)
  case 1
  then show ?case by simp
next
  case (2 c cs)
  then show ?case
    by (fastforce split: if_splits list.splits option.splits)
qed

lemma lex_sign_shorter: "lex_sign cs = (neg, r) \<Longrightarrow> length r \<le> length cs"
  by (auto simp: lex_sign_def split: list.splits if_splits)

lemma lex_int_shorter: "lex_int cs = Some (ds, r) \<Longrightarrow> length r < length cs"
  by (auto simp: lex_int_def less_Suc_eq_le length_dropWhile_le split: list.splits if_splits)

lemma lex_frac_shorter: "lex_frac cs = Some (ds, r) \<Longrightarrow> length r \<le> length cs"
  by (auto simp: lex_frac_def le_SucI length_dropWhile_le split: list.splits if_splits)

lemma lex_exp_shorter: "lex_exp cs = Some (e, r) \<Longrightarrow> length r \<le> length cs"
  by (auto simp: lex_exp_def Let_def le_SucI length_dropWhile_le
      intro: order_trans [OF length_dropWhile_le]
      split: list.splits if_splits prod.splits)

lemma lex_number_shorter: "lex_number cs = Some (x, r) \<Longrightarrow> length r < length cs"
  by (auto simp: lex_number_def split: prod.splits option.splits
      dest!: lex_sign_shorter lex_int_shorter lex_frac_shorter lex_exp_shorter)

text \<open>
  The tokens of a text, or \<open>None\<close> when some character starts no token. The
  lemmas before it say that a string and a number consume input, which is the
  termination argument.
\<close>

function tokenize :: "jsstring \<Rightarrow> token list option" where
  "tokenize [] = Some []"
| "tokenize (c # cs) =
     (if is_ws c then tokenize cs
      else if c = 0x7B then map_option ((#) TLBrace) (tokenize cs)
      else if c = 0x7D then map_option ((#) TRBrace) (tokenize cs)
      else if c = 0x5B then map_option ((#) TLBracket) (tokenize cs)
      else if c = 0x5D then map_option ((#) TRBracket) (tokenize cs)
      else if c = 0x2C then map_option ((#) TComma) (tokenize cs)
      else if c = 0x3A then map_option ((#) TColon) (tokenize cs)
      else if c = 0x22 then
        (case string_body cs of
           None \<Rightarrow> None
         | Some (s, r) \<Rightarrow> map_option ((#) (TString s)) (tokenize r))
      else if c = 0x2D \<or> is_digit c then
        (case lex_number (c # cs) of
           None \<Rightarrow> None
         | Some (x, r) \<Rightarrow> map_option ((#) (TLit (JNum (Fin x)))) (tokenize r))
      else if take 4 (c # cs) = str ''true'' then
        map_option ((#) (TLit (JBool True))) (tokenize (drop 4 (c # cs)))
      else if take 5 (c # cs) = str ''false'' then
        map_option ((#) (TLit (JBool False))) (tokenize (drop 5 (c # cs)))
      else if take 4 (c # cs) = str ''null'' then
        map_option ((#) (TLit JNull)) (tokenize (drop 4 (c # cs)))
      else None)"
  by pat_completeness auto
termination
  by (relation "measure length") (auto dest: string_body_shorter lex_number_shorter)

text \<open>
  A property added to an object: a key that is already there keeps its place and
  takes the new value.
\<close>

fun put_prop :: "(jsstring \<times> jsval) list \<Rightarrow> jsstring \<Rightarrow> jsval \<Rightarrow> (jsstring \<times> jsval) list" where
  "put_prop [] k v = [(k, v)]"
| "put_prop ((k', v') # ps) k v = (if k' = k then (k, v) # ps else (k', v') # put_prop ps k v)"

text \<open>
  The machine. A frame of the stack is an open array with its elements so far, an
  open object with its properties so far, or a key whose value is being read. The
  state says what may come next: a value, a value or \<^verbatim>\<open>]\<close> (just after
  \<^verbatim>\<open>[\<close>), a key or \<^verbatim>\<open>}\<close> (just after \<^verbatim>\<open>{\<close>), a key, a colon,
  a comma or a closing bracket, or nothing: the text's value is complete.
\<close>

datatype frame = ArrF "jsval list" | ObjF "(jsstring \<times> jsval) list" | KeyF jsstring

datatype expect = EValue | EValueOrClose | EKeyOrClose | EKey | EColon | ESep | EDone jsval

text \<open>A value is complete: it is the text's value, an element, or a property's value.\<close>

fun json_complete :: "jsval \<Rightarrow> frame list \<Rightarrow> (frame list \<times> expect) option" where
  "json_complete v [] = Some ([], EDone v)"
| "json_complete v (ArrF xs # st) = Some (ArrF (xs @ [v]) # st, ESep)"
| "json_complete v (KeyF k # ObjF ps # st) = Some (ObjF (put_prop ps k v) # st, ESep)"
| "json_complete v _ = None"

fun open_value :: "token \<Rightarrow> frame list \<Rightarrow> (frame list \<times> expect) option" where
  "open_value (TLit v) st = json_complete v st"
| "open_value (TString s) st = json_complete (JStr s) st"
| "open_value TLBracket st = Some (ArrF [] # st, EValueOrClose)"
| "open_value TLBrace st = Some (ObjF [] # st, EKeyOrClose)"
| "open_value _ st = None"

fun close_array :: "frame list \<Rightarrow> (frame list \<times> expect) option" where
  "close_array (ArrF xs # st) = json_complete (JArr xs) st"
| "close_array _ = None"

fun close_object :: "frame list \<Rightarrow> (frame list \<times> expect) option" where
  "close_object (ObjF ps # st) = json_complete (JObj ps) st"
| "close_object _ = None"

fun after_comma :: "frame list \<Rightarrow> (frame list \<times> expect) option" where
  "after_comma (ArrF xs # st) = Some (ArrF xs # st, EValue)"
| "after_comma (ObjF ps # st) = Some (ObjF ps # st, EKey)"
| "after_comma _ = None"

definition json_step :: "frame list \<times> expect \<Rightarrow> token \<Rightarrow> (frame list \<times> expect) option" where
  "json_step s t =
     (case s of (st, e) \<Rightarrow>
        (case e of
           EValue \<Rightarrow> open_value t st
         | EValueOrClose \<Rightarrow> (case t of TRBracket \<Rightarrow> close_array st | _ \<Rightarrow> open_value t st)
         | EKeyOrClose \<Rightarrow>
             (case t of TString k \<Rightarrow> Some (KeyF k # st, EColon)
              | TRBrace \<Rightarrow> close_object st
              | _ \<Rightarrow> None)
         | EKey \<Rightarrow> (case t of TString k \<Rightarrow> Some (KeyF k # st, EColon) | _ \<Rightarrow> None)
         | EColon \<Rightarrow> (case t of TColon \<Rightarrow> Some (st, EValue) | _ \<Rightarrow> None)
         | ESep \<Rightarrow>
             (case t of TComma \<Rightarrow> after_comma st
              | TRBracket \<Rightarrow> close_array st
              | TRBrace \<Rightarrow> close_object st
              | _ \<Rightarrow> None)
         | EDone v \<Rightarrow> None))"

text \<open>The machine reads all tokens and must end with the complete value and an empty stack.\<close>

fun json_run :: "frame list \<times> expect \<Rightarrow> token list \<Rightarrow> jsval option" where
  "json_run s [] = (case s of ([], EDone v) \<Rightarrow> Some v | _ \<Rightarrow> None)"
| "json_run s (t # ts) = (case json_step s t of None \<Rightarrow> None | Some s' \<Rightarrow> json_run s' ts)"

definition JSON_parse :: "jsstring \<Rightarrow> jsval option" where
  "JSON_parse text = (case tokenize text of None \<Rightarrow> None | Some ts \<Rightarrow> json_run ([], EValue) ts)"

section \<open>The credit heuristic\<close>

text \<open>
  \<^verbatim>\<open>creditScore >= 750 ? 90 : creditScore >= 700 ? 75 : creditScore >= 650 ? 55 : 35\<close>
  and
  \<^verbatim>\<open>creditScore >= 700 ? 'Low' : creditScore >= 600 ? 'Medium' : 'High'\<close>,
  written twice in each entry point: in the handler of a reply that is not JSON, and in
  the handler's catch block. A comparison is evaluated only when the ones before it
  were false.
\<close>

definition approvalProbability :: "engine \<Rightarrow> jsval \<Rightarrow> js_error + jsval" where
  "approvalProbability eng creditScore =
     (case js_ge eng creditScore 750 of Inl e \<Rightarrow> Inl e
      | Inr c1 \<Rightarrow> if c1 then Inr (JNum (Fin 90)) else
     (case js_ge eng creditScore 700 of Inl e \<Rightarrow> Inl e
      | Inr c2 \<Rightarrow> if c2 then Inr (JNum (Fin 75)) else
     (case js_ge eng creditScore 650 of Inl e \<Rightarrow> Inl e
      | Inr c3 \<Rightarrow> if c3 then Inr (JNum (Fin 55)) else Inr (JNum (Fin 35)))))"

definition riskLevel :: "engine \<Rightarrow> jsval \<Rightarrow> js_error + jsval" where
  "riskLevel eng creditScore =
     (case js_ge eng creditScore 700 of Inl e \<Rightarrow> Inl e
      | Inr c1 \<Rightarrow> if c1 then Inr (JStr (str ''Low'')) else
     (case js_ge eng creditScore 600 of Inl e \<Rightarrow> Inl e
      | Inr c2 \<Rightarrow> if c2 then Inr (JStr (str ''Medium'')) else Inr (JStr (str ''High''))))"

text \<open>An integer credit score, as the JSON body carries it.\<close>

definition int_score :: "int \<Rightarrow> jsval" where
  "int_score n = JNum (Fin (of_int n))"

section \<open>Outbound calls and responses\<close>

text \<open>
  Sequencing of evaluations that can throw: the first exception ends the evaluation.
\<close>

definition and_then :: "js_error + 'a \<Rightarrow> ('a \<Rightarrow> js_error + 'b) \<Rightarrow> js_error + 'b" where
  "and_then m f = (case m of Inl e \<Rightarrow> Inl e | Inr x \<Rightarrow> f x)"

text \<open>
  What a handler sends out: \<^verbatim>\<open>openAIClient.getChatCompletions(deployment, messages,
  { maxTokens, temperature })\<close> with the messages as (role, content) pairs, and
  \<^verbatim>\<open>documentClient.beginAnalyzeDocument(modelId, buffer)\<close>.
\<close>

datatype outbound =
    GetChatCompletions jsstring "(jsstring \<times> jsstring) list" nat rat
  | BeginAnalyzeDocument jsstring "8 word list"

text \<open>What a handler answers: the status code and the object given to \<^verbatim>\<open>res.json\<close>.\<close>

record response =
  status :: nat
  body :: jsval

text \<open>
  The two entry points. They differ, in the handlers, by the text that stands before
  an amount: the rupee sign U+20B9 in \<^verbatim>\<open>server.js\<close>, and the three
  characters U+00E2 U+201A U+00B9 in \<^verbatim>\<open>integrated-server.js\<close>.
\<close>

datatype variant = Standalone | Integrated

fun rupee :: "variant \<Rightarrow> jsstring" where
  "rupee Standalone = [0x20B9]"
| "rupee Integrated = [0xE2, 0x201A, 0xB9]"

text \<open>\<^verbatim>\<open>process.env.AZURE_OPENAI_DEPLOYMENT || 'gpt-4'\<close>: the variable, unless unset or empty.\<close>

definition deployment :: "jsstring option \<Rightarrow> jsstring" where
  "deployment env =
     (case env of None \<Rightarrow> str ''gpt-4'' | Some d \<Rightarrow> if d = [] then str ''gpt-4'' else d)"

section \<open>POST /api/check-eligibility\<close>

text \<open>
  The prompt is a template literal: each \<^verbatim>\<open>${...}\<close> is evaluated and converted
  with ToString from left to right. The request body is the list of its properties;
  destructuring reads \<open>undefined\<close> for one that is absent.
\<close>

definition eligibility_prompt ::
  "variant \<Rightarrow> engine \<Rightarrow> (jsstring \<times> jsval) list \<Rightarrow> js_error + jsstring" where
  "eligibility_prompt v eng req =
     and_then (ToString eng (get_prop req (str ''loanType''))) (\<lambda>loanType.
     and_then (ToString eng (get_prop req (str ''amount''))) (\<lambda>amount.
     and_then (ToString eng (get_prop req (str ''income''))) (\<lambda>income.
     and_then (ToString eng (get_prop req (str ''creditScore''))) (\<lambda>creditScore.
     and_then (ToString eng (get_prop req (str ''employment''))) (\<lambda>employment.
     Inr (
       str ''You are a loan eligibility expert. Analyze this loan application:\<newline>'' @
       str ''    \<newline>'' @
       str ''Loan Type: '' @ loanType @ str ''\<newline>'' @
       str ''Requested Amount: '' @ rupee v @ amount @ str ''\<newline>'' @
       str ''Monthly Income: '' @ rupee v @ income @ str ''\<newline>'' @
       str ''Credit Score: '' @ creditScore @ str ''\<newline>'' @
       str ''Employment: '' @ employment @ str ''\<newline>'' @
       str ''Existing Loans: '' @
       (if truthy (get_prop req (str ''existingLoans'')) then str ''Yes'' else str ''No'') @
       str ''\<newline>'' @
       str ''\<newline>'' @
       str ''Provide a detailed eligibility analysis with:\<newline>'' @
       str ''1. Approval probability (percentage)\<newline>'' @
       str ''2. Risk assessment (Low/Medium/High)\<newline>'' @
       str ''3. Recommendations\<newline>'' @
       str ''4. Suitable banks\<newline>'' @
       str ''\<newline>'' @
       str ''Format as JSON with keys: approvalProbability, riskLevel, recommendations, suitableBanks''))))))"

definition eligibility_call ::
  "variant \<Rightarrow> engine \<Rightarrow> jsstring option \<Rightarrow> (jsstring \<times> jsval) list \<Rightarrow> js_error + outbound" where
  "eligibility_call v eng env req =
     and_then (eligibility_prompt v eng req) (\<lambda>prompt.
     Inr (GetChatCompletions (deployment env)
       [(str ''system'',
         str ''You are a financial advisor specializing in loan eligibility assessment.''),
        (str ''user'', prompt)]
       500 (7 / 10)))"

definition suitableBanks :: jsval where
  "suitableBanks = JArr [JStr (str ''HDFC Bank''), JStr (str ''SBI''), JStr (str ''ICICI Bank'')]"

text \<open>
  The object literal with the heuristic, written in the handler of a reply that is
  not JSON and in the catch block; the two differ in \<open>recommendations\<close> only.
\<close>

definition heuristic_analysis :: "engine \<Rightarrow> jsval \<Rightarrow> jsval \<Rightarrow> js_error + jsval" where
  "heuristic_analysis eng creditScore recommendations =
     and_then (approvalProbability eng creditScore) (\<lambda>p.
     and_then (riskLevel eng creditScore) (\<lambda>r.
     Inr (JObj
       [(str ''approvalProbability'', p),
        (str ''riskLevel'', r),
        (str ''recommendations'', recommendations),
        (str ''suitableBanks'', suitableBanks)])))"

text \<open>
  \<^verbatim>\<open>try { analysis = JSON.parse(aiResponse); } catch (e) { analysis = {...}; }\<close>
\<close>

definition parse_analysis :: "engine \<Rightarrow> jsstring \<Rightarrow> jsval \<Rightarrow> js_error + jsval" where
  "parse_analysis eng aiResponse creditScore =
     (case JSON_parse aiResponse of
        Some analysis \<Rightarrow> Inr analysis
      | None \<Rightarrow> heuristic_analysis eng creditScore (JStr aiResponse))"

text \<open>
  The body of the handler's \<^verbatim>\<open>try\<close>. Writing to the console is left out of
  the model of every handler. The chat service is a parameter: \<open>chat\<close>
  stands for the call and the read of \<^verbatim>\<open>result.choices[0].message.content\<close>,
  and gives the reply's text or the exception thrown on the way. The second component
  lists the calls made.
\<close>

definition try_eligibility ::
  "variant \<Rightarrow> engine \<Rightarrow> jsstring option \<Rightarrow> (outbound \<Rightarrow> js_error + jsstring) \<Rightarrow>
   (jsstring \<times> jsval) list \<Rightarrow> (js_error + response) \<times> outbound list" where
  "try_eligibility v eng env chat req =
     (case eligibility_call v eng env req of
        Inl e \<Rightarrow> (Inl e, [])
      | Inr call \<Rightarrow>
          (and_then (chat call) (\<lambda>aiResponse.
           and_then (parse_analysis eng aiResponse (get_prop req (str ''creditScore''))) (\<lambda>analysis.
           Inr \<lparr>status = 200,
                body = JObj [(str ''success'', JBool True),
                             (str ''analysis'', analysis),
                             (str ''aiPowered'', JBool True)]\<rparr>)),
           [call]))"

text \<open>The handler's \<^verbatim>\<open>catch (error)\<close>.\<close>

definition catch_eligibility ::
  "engine \<Rightarrow> (jsstring \<times> jsval) list \<Rightarrow> js_error \<Rightarrow> js_error + response" where
  "catch_eligibility eng req error =
     and_then (heuristic_analysis eng (get_prop req (str ''creditScore''))
        (JStr (str ''Based on your credit score and income, you have a good chance of approval.'')))
       (\<lambda>analysis.
     Inr \<lparr>status = 200,
          body = JObj [(str ''success'', JBool True),
                       (str ''analysis'', analysis),
                       (str ''aiPowered'', JBool False),
                       (str ''error'', JStr (message error))]\<rparr>)"

text \<open>
  The handler. \<open>Inl\<close> in the first component is an exception that leaves the
  handler, thrown in its catch block: no response is sent.
\<close>

definition check_eligibility ::
  "variant \<Rightarrow> engine \<Rightarrow> jsstring option \<Rightarrow> (outbound \<Rightarrow> js_error + jsstring) \<Rightarrow>
   (jsstring \<times> jsval) list \<Rightarrow> (js_error + response) \<times> outbound list" where
  "check_eligibility v eng env chat req =
     (case try_eligibility v eng env chat req of
        (Inr res, calls) \<Rightarrow> (Inr res, calls)
      | (Inl error, calls) \<Rightarrow> (catch_eligibility eng req error, calls))"

section \<open>POST /api/analyze-document\<close>

text \<open>
  \<^verbatim>\<open>req.file\<close>, as the upload middleware leaves it: absent, or the bytes and the
  mime type of the uploaded part.
\<close>

record upload =
  buffer :: "8 word list"
  mimetype :: jsstring

text \<open>
  The result of the document-analysis service, with the parts the handler reads. A
  part that the handler guards with \<^verbatim>\<open>?.\<close>, \<^verbatim>\<open>||\<close> or \<^verbatim>\<open>if\<close> may be
  absent (\<open>None\<close>). Pages are only counted, so their type is left open.
\<close>

record kv_pair =
  kv_key :: "jsstring option option"
  kv_value :: "jsstring option option"
  kv_confidence :: "jsnum option"

record 'p analyze_result =
  pages :: "'p list option"
  content :: "jsstring option"
  keyValuePairs :: "kv_pair list option"

text \<open>
  \<^verbatim>\<open>pair.key?.content || ''\<close>: \<open>None\<close> is an absent \<^verbatim>\<open>key\<close>, \<open>Some None\<close>
  a key without \<^verbatim>\<open>content\<close>; the empty string is falsy and gives the empty string.
\<close>

definition content_or_empty :: "jsstring option option \<Rightarrow> jsval" where
  "content_or_empty el =
     (case el of
        None \<Rightarrow> JStr []
      | Some None \<Rightarrow> JStr []
      | Some (Some c) \<Rightarrow> if truthy (JStr c) then JStr c else JStr [])"

text \<open>\<^verbatim>\<open>pair.confidence || 0\<close>\<close>

definition confidence_or_zero :: "jsnum option \<Rightarrow> jsval" where
  "confidence_or_zero c =
     (case c of
        None \<Rightarrow> JNum (Fin 0)
      | Some x \<Rightarrow> if truthy (JNum x) then JNum x else JNum (Fin 0))"

definition extract_pair :: "kv_pair \<Rightarrow> jsval" where
  "extract_pair pair =
     JObj [(str ''key'', content_or_empty (kv_key pair)),
           (str ''value'', content_or_empty (kv_value pair)),
           (str ''confidence'', confidence_or_zero (kv_confidence pair))]"

text \<open>
  \<^verbatim>\<open>extractedData\<close>, after the two conditional assignments.
  \<^verbatim>\<open>result.pages?.length || 0\<close> is the number of pages, \<^verbatim>\<open>substring(0, 1000)\<close>
  the first 1000 code units, \<^verbatim>\<open>slice(0, 10)\<close> the first ten entries.
\<close>

definition extractedData :: "upload \<Rightarrow> 'p analyze_result \<Rightarrow> jsval" where
  "extractedData file result =
     JObj [(str ''documentType'', JStr (mimetype file)),
           (str ''pages'',
              JNum (Fin (of_nat (case pages result of None \<Rightarrow> 0 | Some ps \<Rightarrow> length ps)))),
           (str ''text'',
              (case content result of
                 None \<Rightarrow> JStr []
               | Some c \<Rightarrow> if truthy (JStr c) then JStr (take 1000 c) else JStr [])),
           (str ''keyValuePairs'',
              (case keyValuePairs result of
                 None \<Rightarrow> JArr []
               | Some kvs \<Rightarrow> JArr (map extract_pair (take 10 kvs)))),
           (str ''tables'', JArr [])]"

text \<open>The data of the catch block; \<^verbatim>\<open>req.file?.mimetype || 'unknown'\<close>.\<close>

definition fallback_data :: "upload \<Rightarrow> jsval" where
  "fallback_data file =
     JObj [(str ''documentType'',
              if truthy (JStr (mimetype file)) then JStr (mimetype file) else JStr (str ''unknown'')),
           (str ''pages'', JNum (Fin 1)),
           (str ''text'', JStr (str ''Document received and validated'')),
           (str ''message'', JStr (str ''Document appears clear and readable''))]"

text \<open>
  The handler. The document service is a parameter: \<open>analyze\<close> stands for
  \<^verbatim>\<open>beginAnalyzeDocument\<close> and \<^verbatim>\<open>pollUntilDone\<close>, and gives the result or the
  exception thrown. Without a file the handler returns before the call.
\<close>

definition analyze_document ::
  "(outbound \<Rightarrow> js_error + 'p analyze_result) \<Rightarrow> upload option \<Rightarrow> response \<times> outbound list" where
  "analyze_document analyze file =
     (case file of
        None \<Rightarrow>
          (\<lparr>status = 400,
            body = JObj [(str ''success'', JBool False),
                         (str ''error'', JStr (str ''No document uploaded''))]\<rparr>, [])
      | Some f \<Rightarrow>
          (let call = BeginAnalyzeDocument (str ''prebuilt-document'') (buffer f) in
           ((case analyze call of
              Inr result \<Rightarrow>
                \<lparr>status = 200,
                 body = JObj [(str ''success'', JBool True),
                              (str ''data'', extractedData f result),
                              (str ''aiPowered'', JBool True),
                              (str ''message'', JStr (str ''Document analyzed successfully''))]\<rparr>
            | Inl error \<Rightarrow>
                \<lparr>status = 200,
                 body = JObj [(str ''success'', JBool True),
                              (str ''data'', fallback_data f),
                              (str ''aiPowered'', JBool False),
                              (str ''error'', JStr (message error))]\<rparr>),
            [call])))"

subsection \<open>The handler on a result of any shape\<close>

text \<open>
  The record above is the shape the SDK declares for a result. JavaScript does not
  check it: the handler reads whatever value the service returns, and a result of
  another shape makes the normalization throw a TypeError, inside the same
  \<^verbatim>\<open>try\<close> as the call. Here the result is any value. The TypeError that the
  engine throws is a parameter, a function of the expression that fails and of the
  value it fails on.

  \<open>own_prop v k\<close> is \<^verbatim>\<open>v.k\<close> for a value that is neither \<open>undefined\<close> nor
  \<open>null\<close>, for the names the handler reads (\<^verbatim>\<open>pages\<close>, \<^verbatim>\<open>content\<close>,
  \<^verbatim>\<open>keyValuePairs\<close>, \<^verbatim>\<open>key\<close>, \<^verbatim>\<open>value\<close>, \<^verbatim>\<open>confidence\<close>,
  \<^verbatim>\<open>length\<close>): none of them is inherited, but \<^verbatim>\<open>length\<close> by arrays and
  strings. \<open>read_prop\<close> is \<^verbatim>\<open>v.k\<close>, which throws on \<open>undefined\<close> and
  \<open>null\<close>; \<open>opt_prop\<close> is \<^verbatim>\<open>v?.k\<close>; \<open>or_else\<close> is \<^verbatim>\<open>a || b\<close>.
\<close>

definition nullish :: "jsval \<Rightarrow> bool" where
  "nullish v = (v = JUndefined \<or> v = JNull)"

definition own_prop :: "jsval \<Rightarrow> jsstring \<Rightarrow> jsval" where
  "own_prop v k =
     (case v of
        JObj ps \<Rightarrow> get_prop ps k
      | JArr xs \<Rightarrow> if k = str ''length'' then JNum (Fin (of_nat (length xs))) else JUndefined
      | JStr s \<Rightarrow> if k = str ''length'' then JNum (Fin (of_nat (length s))) else JUndefined
      | _ \<Rightarrow> JUndefined)"

definition read_prop ::
  "(jsstring \<Rightarrow> jsval \<Rightarrow> js_error) \<Rightarrow> jsstring \<Rightarrow> jsval \<Rightarrow> jsstring \<Rightarrow> js_error + jsval" where
  "read_prop type_error site v k = (if nullish v then Inl (type_error site v) else Inr (own_prop v k))"

definition opt_prop :: "jsval \<Rightarrow> jsstring \<Rightarrow> jsval" where
  "opt_prop v k = (if nullish v then JUndefined else own_prop v k)"

definition or_else :: "jsval \<Rightarrow> jsval \<Rightarrow> jsval" where
  "or_else a b = (if truthy a then a else b)"

text \<open>\<^verbatim>\<open>xs.map(f)\<close> for a callback that can throw: the first exception ends it.\<close>

fun map_throwing :: "('a \<Rightarrow> js_error + 'b) \<Rightarrow> 'a list \<Rightarrow> js_error + 'b list" where
  "map_throwing f [] = Inr []"
| "map_throwing f (x # xs) =
     and_then (f x) (\<lambda>y. and_then (map_throwing f xs) (\<lambda>ys. Inr (y # ys)))"

text \<open>The callback of \<^verbatim>\<open>map\<close>: \<^verbatim>\<open>pair.key\<close> throws when the pair is \<open>null\<close>.\<close>

definition normalize_pair :: "(jsstring \<Rightarrow> jsval \<Rightarrow> js_error) \<Rightarrow> jsval \<Rightarrow> js_error + jsval" where
  "normalize_pair type_error pair =
     and_then (read_prop type_error (str ''pair.key'') pair (str ''key'')) (\<lambda>key.
     and_then (read_prop type_error (str ''pair.value'') pair (str ''value'')) (\<lambda>val.
     and_then (read_prop type_error (str ''pair.confidence'') pair (str ''confidence'')) (\<lambda>confidence.
     Inr (JObj [(str ''key'', or_else (opt_prop key (str ''content'')) (JStr [])),
                (str ''value'', or_else (opt_prop val (str ''content'')) (JStr [])),
                (str ''confidence'', or_else confidence (JNum (Fin 0)))]))))"

text \<open>
  \<^verbatim>\<open>result.content.substring(0, 1000)\<close>, reached when the content is truthy: only
  a string has the method. \<^verbatim>\<open>result.keyValuePairs.slice(0, 10).map(...)\<close>,
  reached when the pairs are truthy: an array has both methods, a string has
  \<^verbatim>\<open>slice\<close> but no \<^verbatim>\<open>map\<close>, other values have neither.
\<close>

definition substring_1000 :: "(jsstring \<Rightarrow> jsval \<Rightarrow> js_error) \<Rightarrow> jsval \<Rightarrow> js_error + jsval" where
  "substring_1000 type_error c =
     (case c of
        JStr s \<Rightarrow> Inr (JStr (take 1000 s))
      | _ \<Rightarrow> Inl (type_error (str ''result.content.substring'') c))"

definition first_ten_pairs :: "(jsstring \<Rightarrow> jsval \<Rightarrow> js_error) \<Rightarrow> jsval \<Rightarrow> js_error + jsval" where
  "first_ten_pairs type_error kvs =
     (case kvs of
        JArr xs \<Rightarrow>
          and_then (map_throwing (normalize_pair type_error) (take 10 xs)) (\<lambda>ps. Inr (JArr ps))
      | JStr s \<Rightarrow> Inl (type_error (str ''result.keyValuePairs.slice(...).map'') (JStr (take 10 s)))
      | _ \<Rightarrow> Inl (type_error (str ''result.keyValuePairs.slice'') kvs))"

text \<open>The statements of the handler from \<^verbatim>\<open>extractedData\<close> to its two assignments.\<close>

definition normalize ::
  "(jsstring \<Rightarrow> jsval \<Rightarrow> js_error) \<Rightarrow> upload \<Rightarrow> jsval \<Rightarrow> js_error + jsval" where
  "normalize type_error file result =
     and_then (read_prop type_error (str ''result.pages'') result (str ''pages'')) (\<lambda>pages.
     and_then (read_prop type_error (str ''result.content'') result (str ''content'')) (\<lambda>content.
     and_then (if truthy content then substring_1000 type_error content else Inr (JStr [])) (\<lambda>text.
     and_then (read_prop type_error (str ''result.keyValuePairs'') result (str ''keyValuePairs''))
       (\<lambda>kvs.
     and_then (if truthy kvs then first_ten_pairs type_error kvs else Inr (JArr [])) (\<lambda>pairs.
     Inr (JObj [(str ''documentType'', JStr (mimetype file)),
                (str ''pages'', or_else (opt_prop pages (str ''length'')) (JNum (Fin 0))),
                (str ''text'', text),
                (str ''keyValuePairs'', pairs),
                (str ''tables'', JArr [])]))))))"

text \<open>
  The handler: an exception of the call and an exception of the normalization reach
  the same catch block.
\<close>

definition analyze_document_untyped ::
  "(jsstring \<Rightarrow> jsval \<Rightarrow> js_error) \<Rightarrow> (outbound \<Rightarrow> js_error + jsval) \<Rightarrow> upload option \<Rightarrow>
   response \<times> outbound list" where
  "analyze_document_untyped type_error analyze file =
     (case file of
        None \<Rightarrow>
          (\<lparr>status = 400,
            body = JObj [(str ''success'', JBool False),
                         (str ''error'', JStr (str ''No document uploaded''))]\<rparr>, [])
      | Some f \<Rightarrow>
          (let call = BeginAnalyzeDocument (str ''prebuilt-document'') (buffer f) in
           ((case and_then (analyze call) (normalize type_error f) of
              Inr extracted \<Rightarrow>
                \<lparr>status = 200,
                 body = JObj [(str ''success'', JBool True),
                              (str ''data'', extracted),
                              (str ''aiPowered'', JBool True),
                              (str ''message'', JStr (str ''Document analyzed successfully''))]\<rparr>
            | Inl error \<Rightarrow>
                \<lparr>status = 200,
                 body = JObj [(str ''success'', JBool True),
                              (str ''data'', fallback_data f),
                              (str ''aiPowered'', JBool False),
                              (str ''error'', JStr (message error))]\<rparr>),
            [call])))"

text \<open>
  A result of the declared shape as a value: an absent part is an absent property.
  On such a value the handler on any result is the handler on the record
  (\<open>analyze_document_untyped_typed\<close> below).
\<close>

definition opt_field :: "jsstring \<Rightarrow> jsval option \<Rightarrow> (jsstring \<times> jsval) list" where
  "opt_field k v = (case v of None \<Rightarrow> [] | Some x \<Rightarrow> [(k, x)])"

definition element_value :: "jsstring option \<Rightarrow> jsval" where
  "element_value c = JObj (opt_field (str ''content'') (map_option JStr c))"

definition pair_value :: "kv_pair \<Rightarrow> jsval" where
  "pair_value pair =
     JObj (opt_field (str ''key'') (map_option element_value (kv_key pair)) @
           opt_field (str ''value'') (map_option element_value (kv_value pair)) @
           opt_field (str ''confidence'') (map_option JNum (kv_confidence pair)))"

definition result_value :: "('p \<Rightarrow> jsval) \<Rightarrow> 'p analyze_result \<Rightarrow> jsval" where
  "result_value page_value result =
     JObj (opt_field (str ''pages'') (map_option (\<lambda>ps. JArr (map page_value ps)) (pages result)) @
           opt_field (str ''content'') (map_option JStr (content result)) @
           opt_field (str ''keyValuePairs'')
             (map_option (\<lambda>kvs. JArr (map pair_value kvs)) (keyValuePairs result)))"

section \<open>POST /api/loan-recommendations\<close>

definition recommendations_prompt ::
  "variant \<Rightarrow> engine \<Rightarrow> (jsstring \<times> jsval) list \<Rightarrow> js_error + jsstring" where
  "recommendations_prompt v eng req =
     and_then (ToString eng (get_prop req (str ''purpose''))) (\<lambda>purpose.
     and_then (ToString eng (get_prop req (str ''income''))) (\<lambda>income.
     and_then (ToString eng (get_prop req (str ''creditScore''))) (\<lambda>creditScore.
     Inr (
       str ''Based on the following user profile, recommend the most suitable loan types:\<newline>'' @
       str ''    \<newline>'' @
       str ''Purpose: '' @ purpose @ str ''\<newline>'' @
       str ''Monthly Income: '' @ rupee v @ income @ str ''\<newline>'' @
       str ''Credit Score: '' @ creditScore @ str ''\<newline>'' @
       str ''\<newline>'' @
       str ''Recommend 3 most suitable loan types from: Personal Loan, Home Loan, Education Loan, Vehicle Loan, Business Loan, Gold Loan, Loan Against Property, PM Mudra Loan.\<newline>'' @
       str ''\<newline>'' @
       str ''For each recommendation, provide:\<newline>'' @
       str ''1. Loan type\<newline>'' @
       str ''2. Why it's suitable\<newline>'' @
       str ''3. Estimated amount range\<newline>'' @
       str ''4. Key benefits\<newline>'' @
       str ''\<newline>'' @
       str ''Format as JSON array.''))))"

definition recommendations_call ::
  "variant \<Rightarrow> engine \<Rightarrow> jsstring option \<Rightarrow> (jsstring \<times> jsval) list \<Rightarrow> js_error + outbound" where
  "recommendations_call v eng env req =
     and_then (recommendations_prompt v eng req) (\<lambda>prompt.
     Inr (GetChatCompletions (deployment env)
       [(str ''system'',
         str ''You are a financial advisor helping users choose the right loan products.''),
        (str ''user'', prompt)]
       600 (7 / 10)))"

text \<open>The array of the catch block, with its one recommendation.\<close>

definition fallback_recommendations :: "variant \<Rightarrow> jsval" where
  "fallback_recommendations v =
     JArr [JObj
       [(str ''loanType'', JStr (str ''Personal Loan'')),
        (str ''reason'', JStr (str ''Flexible and quick approval for general purposes'')),
        (str ''amountRange'',
           JStr (rupee v @ str ''50,000 - '' @ rupee v @ str ''25,00,000'')),
        (str ''benefits'',
           JArr [JStr (str ''No collateral''), JStr (str ''Quick disbursement''),
                 JStr (str ''Flexible tenure'')])]]"

definition loan_recommendations ::
  "variant \<Rightarrow> engine \<Rightarrow> jsstring option \<Rightarrow> (outbound \<Rightarrow> js_error + jsstring) \<Rightarrow>
   (jsstring \<times> jsval) list \<Rightarrow> response \<times> outbound list" where
  "loan_recommendations v eng env chat req =
     (let degraded =
        \<lparr>status = 200,
         body = JObj [(str ''success'', JBool True),
                      (str ''recommendations'', fallback_recommendations v),
                      (str ''aiPowered'', JBool False)]\<rparr>
      in case recommendations_call v eng env req of
        Inl error \<Rightarrow> (degraded, [])
      | Inr call \<Rightarrow>
          (case chat call of
             Inl error \<Rightarrow> (degraded, [call])
           | Inr aiResponse \<Rightarrow>
               (\<lparr>status = 200,
                 body = JObj [(str ''success'', JBool True),
                              (str ''recommendations'', JStr aiResponse),
                              (str ''aiPowered'', JBool True)]\<rparr>, [call])))"

section \<open>Reading responses\<close>

text \<open>
  \<open>field v k\<close> is \<^verbatim>\<open>v.k\<close> for an object, and \<open>undefined\<close> otherwise. A property
  is present in the JSON that \<^verbatim>\<open>res.json\<close> writes when its value is not
  \<open>undefined\<close>.
\<close>

definition field :: "jsval \<Rightarrow> jsstring \<Rightarrow> jsval" where
  "field v k = (case v of JObj ps \<Rightarrow> get_prop ps k | _ \<Rightarrow> JUndefined)"

definition has_field :: "jsval \<Rightarrow> jsstring \<Rightarrow> bool" where
  "has_field v k = (field v k \<noteq> JUndefined)"

text \<open>An analysis with the four fields of an EligibilityAnalysis.\<close>

definition populated :: "jsval \<Rightarrow> bool" where
  "populated a =
     (has_field a (str ''approvalProbability'') \<and> has_field a (str ''riskLevel'') \<and>
      has_field a (str ''recommendations'') \<and> has_field a (str ''suitableBanks''))"

text \<open>The \<^verbatim>\<open>analysis\<close> of the response of the eligibility handler, when one is sent.\<close>

definition analysis_of :: "js_error + response \<Rightarrow> js_error + jsval" where
  "analysis_of out =
     (case out of Inl e \<Rightarrow> Inl e | Inr res \<Rightarrow> Inr (field (body res) (str ''analysis'')))"

text \<open>
  The boundary table of the specification, row by row: the probability and the risk
  tier of an integer score.
\<close>

definition boundary_table :: "int \<Rightarrow> rat \<times> string" where
  "boundary_table score =
     (if 750 \<le> score then (90, ''Low'')
      else if 700 \<le> score \<and> score \<le> 749 then (75, ''Low'')
      else if 650 \<le> score \<and> score \<le> 699 then (55, ''Medium'')
      else if 600 \<le> score \<and> score \<le> 649 then (35, ''Medium'')
      else (35, ''High''))"

section \<open>An engine for the examples\<close>

text \<open>
  The closed examples below need some engine. This one reads NaN from every string,
  array and object, as an engine does from a string that is not a numeric literal
  and from a plain object, and prints a whole number in decimal digits, as an engine
  does below \<open>10\<^sup>2\<^sup>1\<close>. On other arguments its answer is arbitrary; no example
  consults it there.
\<close>

fun decimal :: "nat \<Rightarrow> jsstring" where
  "decimal n =
     (if n < 10 then [of_nat (48 + n)] else decimal (n div 10) @ [of_nat (48 + n mod 10)])"

declare decimal.simps [simp del]

definition print_number :: "jsval \<Rightarrow> js_error + jsstring" where
  "print_number v =
     (case v of
        JNum (Fin q) \<Rightarrow>
          Inr (if q < 0 then 0x2D # decimal (nat (- \<lfloor>q\<rfloor>)) else decimal (nat \<lfloor>q\<rfloor>))
      | _ \<Rightarrow> Inr [])"

definition sample_engine :: engine where
  "sample_engine = \<lparr>ToNumber_rt = (\<lambda>v. Inr NaN), ToString_rt = print_number\<rparr>"

text \<open>A chat or document service that is down.\<close>

definition unavailable :: "outbound \<Rightarrow> js_error + 'a" where
  "unavailable call = Inl (JsError (str ''Service unavailable''))"

text \<open>Two eligibility requests with the credit score 720, and an uploaded PDF.\<close>

definition home_loan_request :: "(jsstring \<times> jsval) list" where
  "home_loan_request =
     [(str ''loanType'', JStr (str ''Home Loan'')),
      (str ''amount'', JNum (Fin 500000)),
      (str ''income'', JNum (Fin 80000)),
      (str ''creditScore'', int_score 720),
      (str ''employment'', JStr (str ''Salaried'')),
      (str ''existingLoans'', JBool False)]"

definition gold_loan_request :: "(jsstring \<times> jsval) list" where
  "gold_loan_request =
     [(str ''loanType'', JStr (str ''Gold Loan'')),
      (str ''amount'', JNum (Fin 20000)),
      (str ''income'', JNum (Fin 15000)),
      (str ''creditScore'', int_score 720),
      (str ''employment'', JStr (str ''Self-employed'')),
      (str ''existingLoans'', JBool True)]"

definition pdf_upload :: upload where
  "pdf_upload = \<lparr>buffer = [0x25, 0x50, 0x44, 0x46], mimetype = str ''application/pdf''\<rparr>"

text \<open>
  A document result with three pages, 1500 characters of text and twelve key-value
  pairs, the keys numbered 0 to 11.
\<close>

definition numbered_pair :: "nat \<Rightarrow> kv_pair" where
  "numbered_pair i =
     \<lparr>kv_key = Some (Some (decimal i)), kv_value = Some None, kv_confidence = None\<rparr>"

definition three_page_result :: "unit analyze_result" where
  "three_page_result =
     \<lparr>pages = Some [(), (), ()],
      content = Some (replicate 1500 0x61),
      keyValuePairs = Some (map numbered_pair [0..<12])\<rparr>"

text \<open>
  A TypeError whose message names the failing expression, a document service that
  returns a given result, and a result whose one key-value pair is \<open>null\<close>.
\<close>

definition type_error_text :: "jsstring \<Rightarrow> jsval \<Rightarrow> js_error" where
  "type_error_text site v = JsError (str ''TypeError at '' @ site)"

definition returning :: "'a \<Rightarrow> outbound \<Rightarrow> js_error + 'a" where
  "returning result call = Inr result"

definition null_pair_result :: jsval where
  "null_pair_result = JObj [(str ''keyValuePairs'', JArr [JNull])]"

section \<open>Theorems\<close>

subsection \<open>Auxiliary facts\<close>

lemma js_ge_int_score: "js_ge eng (int_score n) (of_int k) = Inr (k \<le> n)"
  by (simp add: js_ge_def int_score_def)

lemma js_ge_int_score_numeral: "js_ge eng (int_score n) (numeral k) = Inr (numeral k \<le> n)"
  using js_ge_int_score [of eng n "numeral k"] by simp

lemma js_ge_NaN: "ToNumber eng v = Inr NaN \<Longrightarrow> js_ge eng v k = Inr False"
  by (simp add: js_ge_def)

lemma approvalProbability_NaN:
  "ToNumber eng v = Inr NaN \<Longrightarrow> approvalProbability eng v = Inr (JNum (Fin 35))"
  by (simp add: approvalProbability_def js_ge_NaN)

lemma riskLevel_NaN:
  "ToNumber eng v = Inr NaN \<Longrightarrow> riskLevel eng v = Inr (JStr (str ''High''))"
  by (simp add: riskLevel_def js_ge_NaN)

lemma approvalProbability_total:
  assumes "ToNumber eng v = Inr x"
  shows "approvalProbability eng v \<in> Inr ` {JNum (Fin 90), JNum (Fin 75), JNum (Fin 55), JNum (Fin 35)}"
  using assms by (simp add: approvalProbability_def js_ge_def)

lemma riskLevel_total:
  assumes "ToNumber eng v = Inr x"
  shows "riskLevel eng v \<in> Inr ` {JStr (str ''Low''), JStr (str ''Medium''), JStr (str ''High'')}"
  using assms by (simp add: riskLevel_def js_ge_def)

lemma approvalProbability_int_score:
  "approvalProbability eng (int_score n) =
     Inr (JNum (Fin (if 750 \<le> n then 90 else if 700 \<le> n then 75 else if 650 \<le> n then 55 else 35)))"
  by (simp add: approvalProbability_def js_ge_int_score_numeral)

lemma riskLevel_int_score:
  "riskLevel eng (int_score n) =
     Inr (JStr (str (if 700 \<le> n then ''Low'' else if 600 \<le> n then ''Medium'' else ''High'')))"
  by (simp add: riskLevel_def js_ge_int_score_numeral)

lemma heuristic_analysis_Inr:
  "approvalProbability eng cs = Inr p \<Longrightarrow> riskLevel eng cs = Inr r \<Longrightarrow>
   heuristic_analysis eng cs recs =
     Inr (JObj [(str ''approvalProbability'', p), (str ''riskLevel'', r),
                (str ''recommendations'', recs), (str ''suitableBanks'', suitableBanks)])"
  by (simp add: heuristic_analysis_def and_then_def)

lemma heuristic_analysis_total:
  assumes "ToNumber eng cs = Inr x"
  shows "\<exists>p r. p \<noteq> JUndefined \<and> r \<noteq> JUndefined \<and>
    heuristic_analysis eng cs recs =
      Inr (JObj [(str ''approvalProbability'', p), (str ''riskLevel'', r),
                 (str ''recommendations'', recs), (str ''suitableBanks'', suitableBanks)])"
proof -
  from approvalProbability_total [OF assms] obtain p
    where p: "approvalProbability eng cs = Inr p" "p \<noteq> JUndefined" by auto
  from riskLevel_total [OF assms] obtain r
    where r: "riskLevel eng cs = Inr r" "r \<noteq> JUndefined" by auto
  from heuristic_analysis_Inr [OF p(1) r(1)] p(2) r(2) show ?thesis by blast
qed

lemma analysis_keys_distinct:
  "str ''approvalProbability'' \<noteq> str ''riskLevel''"
  "str ''approvalProbability'' \<noteq> str ''recommendations''"
  "str ''approvalProbability'' \<noteq> str ''suitableBanks''"
  "str ''riskLevel'' \<noteq> str ''recommendations''"
  "str ''riskLevel'' \<noteq> str ''suitableBanks''"
  "str ''recommendations'' \<noteq> str ''suitableBanks''"
  by (simp_all add: str_def)

lemma populated_four_fields:
  assumes "p \<noteq> JUndefined" "r \<noteq> JUndefined" "recs \<noteq> JUndefined" "banks \<noteq> JUndefined"
  shows "populated (JObj [(str ''approvalProbability'', p), (str ''riskLevel'', r),
                          (str ''recommendations'', recs), (str ''suitableBanks'', banks)])"
  using assms analysis_keys_distinct
  by (simp add: populated_def has_field_def field_def get_prop_def)

lemma JSON_parse_not_json: "JSON_parse (str ''not json'') = None"
  by code_simp

lemma JSON_parse_null: "JSON_parse (str ''null'') = Some JNull"
  by code_simp

lemma JSON_parse_apology: "JSON_parse (str ''Sorry, I cannot help.'') = None"
  by code_simp

lemma JSON_parse_example:
  "JSON_parse (str ''{\"approvalProbability\":80,\"riskLevel\":\"Low\",\"recommendations\":\"ok\",\"suitableBanks\":[\"X\"]}'') =
     Some (JObj [(str ''approvalProbability'', JNum (Fin 80)), (str ''riskLevel'', JStr (str ''Low'')),
                 (str ''recommendations'', JStr (str ''ok'')), (str ''suitableBanks'', JArr [JStr (str ''X'')])])"
  by code_simp

lemma boundary_table_probability:
  "fst (boundary_table n) = (if 750 \<le> n then 90 else if 700 \<le> n then 75 else if 650 \<le> n then 55 else 35)"
  by (simp add: boundary_table_def)

lemma boundary_table_risk:
  "snd (boundary_table n) = (if 700 \<le> n then ''Low'' else if 600 \<le> n then ''Medium'' else ''High'')"
  by (simp add: boundary_table_def)

lemma check_eligibility_degraded:
  assumes "eligibility_call v eng env req = Inr call" and "chat call = Inl error"
  shows "check_eligibility v eng env chat req = (catch_eligibility eng req error, [call])"
  using assms by (simp add: check_eligibility_def try_eligibility_def and_then_def)

lemma unavailable_down:
  "unavailable call = (Inl (JsError (str ''Service unavailable'')) :: js_error + jsstring)"
  by (simp add: unavailable_def)

lemma response_keys_distinct:
  "str ''success'' \<noteq> str ''analysis''"
  "str ''analysis'' \<noteq> str ''success''"
  by (simp_all add: str_def)

lemma analysis_of_catch:
  "analysis_of (catch_eligibility eng req error) =
     heuristic_analysis eng (get_prop req (str ''creditScore''))
       (JStr (str ''Based on your credit score and income, you have a good chance of approval.''))"
  by (simp add: analysis_of_def catch_eligibility_def and_then_def field_def get_prop_def
      response_keys_distinct split: sum.splits)

lemma heuristic_analysis_fields:
  assumes "heuristic_analysis eng cs recs = Inr a"
  shows "field a (str ''recommendations'') = recs \<and> field a (str ''suitableBanks'') = suitableBanks"
  using assms analysis_keys_distinct
  by (auto simp: heuristic_analysis_def and_then_def field_def get_prop_def split: sum.splits)

lemma home_loan_call:
  "\<exists>call. eligibility_call v sample_engine env home_loan_request = Inr call"
  by (simp add: eligibility_call_def eligibility_prompt_def and_then_def home_loan_request_def
      get_prop_def sample_engine_def print_number_def int_score_def str_def)

lemma gold_loan_call:
  "\<exists>call. eligibility_call v sample_engine env gold_loan_request = Inr call"
  by (simp add: eligibility_call_def eligibility_prompt_def and_then_def gold_loan_request_def
      get_prop_def sample_engine_def print_number_def int_score_def str_def)

lemma home_loan_score: "get_prop home_loan_request (str ''creditScore'') = int_score 720"
  by (simp add: home_loan_request_def get_prop_def str_def)

lemma gold_loan_score: "get_prop gold_loan_request (str ''creditScore'') = int_score 720"
  by (simp add: gold_loan_request_def get_prop_def str_def)

lemma extractedData_fields:
  "field (extractedData file result) (str ''documentType'') = JStr (mimetype file)"
  "field (extractedData file result) (str ''pages'') =
     JNum (Fin (of_nat (case pages result of None \<Rightarrow> 0 | Some ps \<Rightarrow> length ps)))"
  "field (extractedData file result) (str ''text'') =
     JStr (take 1000 (case content result of None \<Rightarrow> [] | Some c \<Rightarrow> c))"
  "field (extractedData file result) (str ''keyValuePairs'') =
     JArr (map extract_pair (take 10 (case keyValuePairs result of None \<Rightarrow> [] | Some kvs \<Rightarrow> kvs)))"
  "field (extractedData file result) (str ''tables'') = JArr []"
  by (simp_all add: extractedData_def field_def get_prop_def str_def split: option.splits)

lemma falsy_number: "(\<not> truthy (JNum x)) = (x = NaN \<or> x = Fin 0)"
  by (cases x) auto

lemma extract_pair_fields:
  "field (extract_pair pair) (str ''key'') =
     JStr (case kv_key pair of Some (Some c) \<Rightarrow> c | _ \<Rightarrow> [])"
  "field (extract_pair pair) (str ''value'') =
     JStr (case kv_value pair of Some (Some c) \<Rightarrow> c | _ \<Rightarrow> [])"
  "field (extract_pair pair) (str ''confidence'') =
     JNum (case kv_confidence pair of None \<Rightarrow> Fin 0 | Some x \<Rightarrow> if x = NaN then Fin 0 else x)"
  using falsy_number
  by (auto simp: extract_pair_def field_def get_prop_def str_def content_or_empty_def
      confidence_or_zero_def split: option.splits)

lemma three_page_result_parts:
  "pages three_page_result = Some [(), (), ()]"
  "content three_page_result = Some (replicate 1500 0x61)"
  "keyValuePairs three_page_result = Some (map numbered_pair [0..<12])"
  by (simp_all add: three_page_result_def)

lemma fallback_data_fields:
  "has_field (fallback_data f) (str ''documentType'')"
  "has_field (fallback_data f) (str ''pages'')"
  "has_field (fallback_data f) (str ''text'')"
  "has_field (fallback_data f) (str ''message'')"
  "\<not> has_field (fallback_data f) (str ''keyValuePairs'')"
  "\<not> has_field (fallback_data f) (str ''tables'')"
  by (simp_all add: fallback_data_def has_field_def field_def get_prop_def str_def)

lemma normalize_pair_typed:
  "normalize_pair type_error (pair_value pair) = Inr (extract_pair pair)"
  by (cases "kv_key pair"; cases "kv_value pair"; cases "kv_confidence pair")
    (auto simp: normalize_pair_def pair_value_def extract_pair_def read_prop_def nullish_def
      own_prop_def opt_prop_def or_else_def opt_field_def element_value_def and_then_def
      get_prop_def content_or_empty_def confidence_or_zero_def str_def split: option.splits)

lemma map_throwing_typed:
  "map_throwing (normalize_pair type_error) (map pair_value kvs) = Inr (map extract_pair kvs)"
  by (induction kvs) (simp_all add: normalize_pair_typed and_then_def)

lemma normalize_typed:
  "normalize type_error f (result_value page_value result) = Inr (extractedData f result)"
  by (cases "pages result"; cases "content result"; cases "keyValuePairs result")
    (simp_all add: normalize_def result_value_def extractedData_def read_prop_def nullish_def
      own_prop_def opt_prop_def or_else_def opt_field_def and_then_def get_prop_def
      substring_1000_def first_ten_pairs_def map_throwing_typed take_map str_def)

lemma analyze_document_untyped_typed:
  "analyze_document_untyped type_error (\<lambda>call. map_sum id (result_value page_value) (analyze call)) upl =
   analyze_document analyze upl"
  by (cases upl)
    (auto simp: analyze_document_untyped_def analyze_document_def Let_def and_then_def
      normalize_typed split: sum.splits)


lemma analyze_document_untyped_degraded:
  assumes "and_then (analyze (BeginAnalyzeDocument (str ''prebuilt-document'') (buffer f)))
             (normalize type_error f) = Inl error"
  shows "analyze_document_untyped type_error analyze (Some f) =
    (\<lparr>status = 200,
      body = JObj [(str ''success'', JBool True),
                   (str ''data'', fallback_data f),
                   (str ''aiPowered'', JBool False),
                   (str ''error'', JStr (message error))]\<rparr>,
     [BeginAnalyzeDocument (str ''prebuilt-document'') (buffer f)])"
  using assms by (simp add: analyze_document_untyped_def Let_def)

lemma data_of_unavailable:
  "field (body (fst (analyze_document_untyped type_error unavailable (Some f)))) (str ''data'') =
     fallback_data f"
  by (simp add: analyze_document_untyped_def Let_def unavailable_def and_then_def field_def
      get_prop_def str_def)

lemma normalize_null_pair:
  "normalize type_error f null_pair_result = Inl (type_error (str ''pair.key'') JNull)"
  by (simp add: normalize_def null_pair_result_def read_prop_def nullish_def own_prop_def
      opt_prop_def or_else_def and_then_def get_prop_def first_ten_pairs_def normalize_pair_def
      str_def)

lemma fallback_recommendations_differ:
  "fallback_recommendations Standalone \<noteq> fallback_recommendations Integrated"
  by (simp add: fallback_recommendations_def)

lemma loan_recommendations_unavailable:
  "fst (loan_recommendations v eng env unavailable req) =
     \<lparr>status = 200,
      body = JObj [(str ''success'', JBool True),
                   (str ''recommendations'', fallback_recommendations v),
                   (str ''aiPowered'', JBool False)]\<rparr>"
  by (simp add: loan_recommendations_def Let_def unavailable_def split: sum.splits)

lemma eligibility_prompts_agree_iff:
  "(eligibility_prompt Standalone eng req = eligibility_prompt Integrated eng req) =
   (\<exists>e. eligibility_prompt Standalone eng req = Inl e)"
  by (auto simp: eligibility_prompt_def and_then_def split: sum.splits)

lemma recommendations_prompts_agree_iff:
  "(recommendations_prompt Standalone eng req = recommendations_prompt Integrated eng req) =
   (\<exists>e. recommendations_prompt Standalone eng req = Inl e)"
  by (auto simp: recommendations_prompt_def and_then_def split: sum.splits)

subsection \<open>The claims\<close>

text \<open>
  C1. For every integer credit score the heuristic gives the pair of the boundary
  table: 90 and Low from 750; 75 and Low on 700..749; 55 and Medium on 650..699;
  35 and Medium on 600..649; 35 and High below 600.
\<close>

theorem C1_heuristic_boundary_table:
  "(750 \<le> n \<longrightarrow>
      approvalProbability eng (int_score n) = Inr (JNum (Fin 90)) \<and>
      riskLevel eng (int_score n) = Inr (JStr (str ''Low''))) \<and>
   (700 \<le> n \<and> n < 750 \<longrightarrow>
      approvalProbability eng (int_score n) = Inr (JNum (Fin 75)) \<and>
      riskLevel eng (int_score n) = Inr (JStr (str ''Low''))) \<and>
   (650 \<le> n \<and> n < 700 \<longrightarrow>
      approvalProbability eng (int_score n) = Inr (JNum (Fin 55)) \<and>
      riskLevel eng (int_score n) = Inr (JStr (str ''Medium''))) \<and>
   (600 \<le> n \<and> n < 650 \<longrightarrow>
      approvalProbability eng (int_score n) = Inr (JNum (Fin 35)) \<and>
      riskLevel eng (int_score n) = Inr (JStr (str ''Medium''))) \<and>
   (n < 600 \<longrightarrow>
      approvalProbability eng (int_score n) = Inr (JNum (Fin 35)) \<and>
      riskLevel eng (int_score n) = Inr (JStr (str ''High'')))"
  by (simp add: approvalProbability_def riskLevel_def js_ge_int_score_numeral)

theorem C1_heuristic_boundary_table_witness:
  "approvalProbability sample_engine (int_score 750) = Inr (JNum (Fin 90)) \<and>
   riskLevel sample_engine (int_score 750) = Inr (JStr (str ''Low'')) \<and>
   approvalProbability sample_engine (int_score 749) = Inr (JNum (Fin 75)) \<and>
   riskLevel sample_engine (int_score 749) = Inr (JStr (str ''Low'')) \<and>
   approvalProbability sample_engine (int_score 700) = Inr (JNum (Fin 75)) \<and>
   riskLevel sample_engine (int_score 700) = Inr (JStr (str ''Low'')) \<and>
   approvalProbability sample_engine (int_score 699) = Inr (JNum (Fin 55)) \<and>
   riskLevel sample_engine (int_score 699) = Inr (JStr (str ''Medium'')) \<and>
   approvalProbability sample_engine (int_score 650) = Inr (JNum (Fin 55)) \<and>
   riskLevel sample_engine (int_score 650) = Inr (JStr (str ''Medium'')) \<and>
   approvalProbability sample_engine (int_score 649) = Inr (JNum (Fin 35)) \<and>
   riskLevel sample_engine (int_score 649) = Inr (JStr (str ''Medium'')) \<and>
   approvalProbability sample_engine (int_score 600) = Inr (JNum (Fin 35)) \<and>
   riskLevel sample_engine (int_score 600) = Inr (JStr (str ''Medium'')) \<and>
   approvalProbability sample_engine (int_score 599) = Inr (JNum (Fin 35)) \<and>
   riskLevel sample_engine (int_score 599) = Inr (JStr (str ''High''))"
  using C1_heuristic_boundary_table [of 750 sample_engine]
    C1_heuristic_boundary_table [of 749 sample_engine]
    C1_heuristic_boundary_table [of 700 sample_engine]
    C1_heuristic_boundary_table [of 699 sample_engine]
    C1_heuristic_boundary_table [of 650 sample_engine]
    C1_heuristic_boundary_table [of 649 sample_engine]
    C1_heuristic_boundary_table [of 600 sample_engine]
    C1_heuristic_boundary_table [of 599 sample_engine]
  by simp

text \<open>
  C8, as claimed: an undefined or non-numeric credit score makes the heuristic fail
  with an error. It does not: for \<open>undefined\<close> every comparison is false, and the
  heuristic answers 35 and High.
\<close>

theorem C8_undefined_score_counterexample:
  "approvalProbability sample_engine JUndefined = Inr (JNum (Fin 35)) \<and>
   riskLevel sample_engine JUndefined = Inr (JStr (str ''High''))"
  by (simp add: approvalProbability_NaN riskLevel_NaN)

text \<open>
  C8, amended. On an integer score the heuristic returns a probability and a risk
  tier, never an error. On \<open>undefined\<close>, and on every input that ToNumber reads as
  NaN (a string that is not a number, for one), it raises no error either: it
  answers probability 35 and risk High.
\<close>

theorem C8_heuristic_total_silent_default:
  "(\<exists>p r. approvalProbability eng (int_score n) = Inr p \<and> riskLevel eng (int_score n) = Inr r) \<and>
   approvalProbability eng JUndefined = Inr (JNum (Fin 35)) \<and>
   riskLevel eng JUndefined = Inr (JStr (str ''High'')) \<and>
   (ToNumber eng v = Inr NaN \<longrightarrow>
      approvalProbability eng v = Inr (JNum (Fin 35)) \<and>
      riskLevel eng v = Inr (JStr (str ''High'')))"
proof -
  have "ToNumber eng (int_score n) = Inr (Fin (of_int n))"
    by (simp add: int_score_def)
  from approvalProbability_total [OF this] riskLevel_total [OF this]
  have "\<exists>p r. approvalProbability eng (int_score n) = Inr p \<and> riskLevel eng (int_score n) = Inr r"
    by auto
  then show ?thesis
    by (simp add: approvalProbability_NaN riskLevel_NaN)
qed

theorem C8_heuristic_total_silent_default_witness:
  "ToNumber sample_engine (JStr (str ''abc'')) = Inr NaN \<and>
   approvalProbability sample_engine (JStr (str ''abc'')) = Inr (JNum (Fin 35)) \<and>
   riskLevel sample_engine (JStr (str ''abc'')) = Inr (JStr (str ''High''))"
  using C8_heuristic_total_silent_default [of sample_engine 0 "JStr (str ''abc'')"]
  by (simp add: sample_engine_def)

text \<open>
  C2. When the reply decodes to an object with the four keys, the analysis is the
  decoded object, unchanged. When decoding fails, the analysis holds the heuristic's
  probability and risk for the request's credit score, the reply itself as
  \<open>recommendations\<close>, and the three banks. The reply \<^verbatim>\<open>not json\<close> with the
  score 720 gives 75, Low, \<^verbatim>\<open>not json\<close> and the three banks.
\<close>

theorem C2_parse_analysis:
  "(JSON_parse rawText = Some analysis \<and> populated analysis \<longrightarrow>
      parse_analysis eng rawText creditScore = Inr analysis) \<and>
   (JSON_parse rawText = None \<and>
    approvalProbability eng creditScore = Inr p \<and> riskLevel eng creditScore = Inr r \<longrightarrow>
      parse_analysis eng rawText creditScore =
        Inr (JObj [(str ''approvalProbability'', p),
                   (str ''riskLevel'', r),
                   (str ''recommendations'', JStr rawText),
                   (str ''suitableBanks'',
                    JArr [JStr (str ''HDFC Bank''), JStr (str ''SBI''), JStr (str ''ICICI Bank'')])])) \<and>
   parse_analysis eng (str ''not json'') (int_score 720) =
     Inr (JObj [(str ''approvalProbability'', JNum (Fin 75)),
                (str ''riskLevel'', JStr (str ''Low'')),
                (str ''recommendations'', JStr (str ''not json'')),
                (str ''suitableBanks'',
                 JArr [JStr (str ''HDFC Bank''), JStr (str ''SBI''), JStr (str ''ICICI Bank'')])])"
proof (intro conjI impI)
  assume "JSON_parse rawText = Some analysis \<and> populated analysis"
  then show "parse_analysis eng rawText creditScore = Inr analysis"
    by (simp add: parse_analysis_def)
next
  assume "JSON_parse rawText = None \<and>
    approvalProbability eng creditScore = Inr p \<and> riskLevel eng creditScore = Inr r"
  then show "parse_analysis eng rawText creditScore =
        Inr (JObj [(str ''approvalProbability'', p),
                   (str ''riskLevel'', r),
                   (str ''recommendations'', JStr rawText),
                   (str ''suitableBanks'',
                    JArr [JStr (str ''HDFC Bank''), JStr (str ''SBI''), JStr (str ''ICICI Bank'')])])"
    by (simp add: parse_analysis_def heuristic_analysis_Inr suitableBanks_def)
next
  show "parse_analysis eng (str ''not json'') (int_score 720) =
     Inr (JObj [(str ''approvalProbability'', JNum (Fin 75)),
                (str ''riskLevel'', JStr (str ''Low'')),
                (str ''recommendations'', JStr (str ''not json'')),
                (str ''suitableBanks'',
                 JArr [JStr (str ''HDFC Bank''), JStr (str ''SBI''), JStr (str ''ICICI Bank'')])])"
    by (simp add: parse_analysis_def JSON_parse_not_json heuristic_analysis_Inr
        approvalProbability_int_score riskLevel_int_score suitableBanks_def)
qed

theorem C2_parse_analysis_witness:
  "populated (JObj [(str ''approvalProbability'', JNum (Fin 80)), (str ''riskLevel'', JStr (str ''Low'')),
                 (str ''recommendations'', JStr (str ''ok'')), (str ''suitableBanks'', JArr [JStr (str ''X'')])]) \<and>
   parse_analysis sample_engine
     (str ''{\"approvalProbability\":80,\"riskLevel\":\"Low\",\"recommendations\":\"ok\",\"suitableBanks\":[\"X\"]}'')
     (int_score 720) =
     Inr (JObj [(str ''approvalProbability'', JNum (Fin 80)), (str ''riskLevel'', JStr (str ''Low'')),
                 (str ''recommendations'', JStr (str ''ok'')), (str ''suitableBanks'', JArr [JStr (str ''X'')])]) \<and>
   parse_analysis sample_engine (str ''Sorry, I cannot help.'') (int_score 599) =
     Inr (JObj [(str ''approvalProbability'', JNum (Fin 35)),
                (str ''riskLevel'', JStr (str ''High'')),
                (str ''recommendations'', JStr (str ''Sorry, I cannot help.'')),
                (str ''suitableBanks'',
                 JArr [JStr (str ''HDFC Bank''), JStr (str ''SBI''), JStr (str ''ICICI Bank'')])])"
  using
    C2_parse_analysis [of
      "str ''{\"approvalProbability\":80,\"riskLevel\":\"Low\",\"recommendations\":\"ok\",\"suitableBanks\":[\"X\"]}''"
      "JObj [(str ''approvalProbability'', JNum (Fin 80)), (str ''riskLevel'', JStr (str ''Low'')),
                 (str ''recommendations'', JStr (str ''ok'')), (str ''suitableBanks'', JArr [JStr (str ''X'')])]"
      sample_engine "int_score 720"]
    C2_parse_analysis [of "str ''Sorry, I cannot help.''" _ sample_engine "int_score 599"
      "JNum (Fin 35)" "JStr (str ''High'')"]
    JSON_parse_example JSON_parse_apology populated_four_fields
  by (simp add: approvalProbability_int_score riskLevel_int_score)

text \<open>
  C6, as claimed: whatever the reply, the analysis has the four fields. The reply
  \<^verbatim>\<open>null\<close> is valid JSON: the analysis is \<open>null\<close>, with no field at all.
\<close>

theorem C6_null_reply_counterexample:
  "parse_analysis sample_engine (str ''null'') (int_score 720) = Inr JNull \<and> \<not> populated JNull"
  by (simp add: parse_analysis_def JSON_parse_null populated_def has_field_def field_def)

text \<open>
  C6, amended. When ToNumber of the credit score does not throw (it cannot for a
  number, \<open>undefined\<close>, \<open>null\<close> or a boolean), the parsing step returns an
  analysis and raises no error. When the reply is not valid JSON, the analysis has
  the four fields. When the reply is valid JSON, the analysis is the decoded value,
  whatever it is.
\<close>

theorem C6_parse_never_fails:
  "ToNumber eng creditScore = Inr x \<Longrightarrow>
   \<exists>analysis. parse_analysis eng rawText creditScore = Inr analysis \<and>
     (JSON_parse rawText = None \<longrightarrow> populated analysis) \<and>
     (\<forall>v. JSON_parse rawText = Some v \<longrightarrow> analysis = v)"
proof (cases "JSON_parse rawText")
  case None
  assume "ToNumber eng creditScore = Inr x"
  from heuristic_analysis_total [OF this, of "JStr rawText"] obtain p r
    where "p \<noteq> JUndefined" "r \<noteq> JUndefined"
      and "heuristic_analysis eng creditScore (JStr rawText) =
        Inr (JObj [(str ''approvalProbability'', p), (str ''riskLevel'', r),
                   (str ''recommendations'', JStr rawText), (str ''suitableBanks'', suitableBanks)])"
    by blast
  with None show ?thesis
    by (simp add: parse_analysis_def populated_four_fields suitableBanks_def)
next
  case (Some v)
  then show ?thesis by (simp add: parse_analysis_def)
qed

theorem C6_parse_never_fails_witness:
  "(\<exists>analysis. parse_analysis sample_engine (str ''not json'') (int_score 720) = Inr analysis \<and>
      populated analysis) \<and>
   (\<exists>analysis. parse_analysis sample_engine (str ''null'') JUndefined = Inr analysis \<and>
      analysis = JNull)"
  using C6_parse_never_fails [of sample_engine "int_score 720" "Fin 720" "str ''not json''"]
    C6_parse_never_fails [of sample_engine JUndefined NaN "str ''null''"]
  by (simp add: JSON_parse_not_json JSON_parse_null int_score_def)

text \<open>
  C3. When the chat call of an eligibility request throws, the handler answers with
  status 200, \<open>success\<close> true, \<open>aiPowered\<close> false, the message of the
  exception as \<open>error\<close>, and an analysis with the probability and the risk of the
  boundary table for the request's integer credit score, the fixed narrative and the
  three banks; the call was the only one made.
\<close>

theorem C3_degraded_eligibility:
  assumes "eligibility_call v eng env req = Inr call"
    and "chat call = Inl error"
    and "get_prop req (str ''creditScore'') = int_score n"
  shows "check_eligibility v eng env chat req =
    (Inr \<lparr>status = 200,
          body = JObj
            [(str ''success'', JBool True),
             (str ''analysis'', JObj
               [(str ''approvalProbability'', JNum (Fin (fst (boundary_table n)))),
                (str ''riskLevel'', JStr (str (snd (boundary_table n)))),
                (str ''recommendations'',
                 JStr (str ''Based on your credit score and income, you have a good chance of approval.'')),
                (str ''suitableBanks'',
                 JArr [JStr (str ''HDFC Bank''), JStr (str ''SBI''), JStr (str ''ICICI Bank'')])]),
             (str ''aiPowered'', JBool False),
             (str ''error'', JStr (message error))]\<rparr>,
     [call])"
proof -
  have "heuristic_analysis eng (int_score n)
      (JStr (str ''Based on your credit score and income, you have a good chance of approval.'')) =
    Inr (JObj
      [(str ''approvalProbability'', JNum (Fin (fst (boundary_table n)))),
       (str ''riskLevel'', JStr (str (snd (boundary_table n)))),
       (str ''recommendations'',
        JStr (str ''Based on your credit score and income, you have a good chance of approval.'')),
       (str ''suitableBanks'', suitableBanks)])"
    by (rule heuristic_analysis_Inr)
      (simp_all only: approvalProbability_int_score riskLevel_int_score
        boundary_table_probability boundary_table_risk)
  moreover have "check_eligibility v eng env chat req = (catch_eligibility eng req error, [call])"
    using assms(1,2) by (rule check_eligibility_degraded)
  ultimately show ?thesis
    using assms(3) by (simp add: catch_eligibility_def and_then_def suitableBanks_def)
qed

theorem C3_degraded_eligibility_witness:
  "fst (check_eligibility Standalone sample_engine None unavailable home_loan_request) =
    Inr \<lparr>status = 200,
          body = JObj
            [(str ''success'', JBool True),
             (str ''analysis'', JObj
               [(str ''approvalProbability'', JNum (Fin 75)),
                (str ''riskLevel'', JStr (str ''Low'')),
                (str ''recommendations'',
                 JStr (str ''Based on your credit score and income, you have a good chance of approval.'')),
                (str ''suitableBanks'',
                 JArr [JStr (str ''HDFC Bank''), JStr (str ''SBI''), JStr (str ''ICICI Bank'')])]),
             (str ''aiPowered'', JBool False),
             (str ''error'', JStr (str ''Service unavailable''))]\<rparr>"
proof -
  obtain call where call: "eligibility_call Standalone sample_engine None home_loan_request = Inr call"
    using home_loan_call by blast
  from C3_degraded_eligibility [where chat = unavailable, OF call unavailable_down home_loan_score]
  show ?thesis
    by (simp add: boundary_table_def)
qed

text \<open>
  C10. The analysis of a degraded eligibility response depends on the credit score
  alone: two requests with the same credit score whose chat calls throw get the
  same analysis, whatever the entry point, the deployment, the other fields of the
  requests and the exceptions. Its \<open>recommendations\<close> and \<open>suitableBanks\<close> are
  the two constants of the catch block.
\<close>

theorem C10_degraded_analysis_by_score_only:
  assumes "eligibility_call v1 eng env1 req1 = Inr call1" and "chat1 call1 = Inl error1"
    and "eligibility_call v2 eng env2 req2 = Inr call2" and "chat2 call2 = Inl error2"
    and "get_prop req1 (str ''creditScore'') = get_prop req2 (str ''creditScore'')"
  shows "analysis_of (fst (check_eligibility v1 eng env1 chat1 req1)) =
         analysis_of (fst (check_eligibility v2 eng env2 chat2 req2)) \<and>
    (\<forall>a. analysis_of (fst (check_eligibility v1 eng env1 chat1 req1)) = Inr a \<longrightarrow>
       field a (str ''recommendations'') =
         JStr (str ''Based on your credit score and income, you have a good chance of approval.'') \<and>
       field a (str ''suitableBanks'') =
         JArr [JStr (str ''HDFC Bank''), JStr (str ''SBI''), JStr (str ''ICICI Bank'')])"
proof -
  have one: "check_eligibility v1 eng env1 chat1 req1 = (catch_eligibility eng req1 error1, [call1])"
    using assms(1,2) by (rule check_eligibility_degraded)
  have two: "check_eligibility v2 eng env2 chat2 req2 = (catch_eligibility eng req2 error2, [call2])"
    using assms(3,4) by (rule check_eligibility_degraded)
  show ?thesis
    using assms(5) heuristic_analysis_fields
    by (simp add: one two analysis_of_catch suitableBanks_def)
qed

theorem C10_degraded_analysis_by_score_only_witness:
  "analysis_of (fst (check_eligibility Standalone sample_engine None unavailable home_loan_request)) =
   analysis_of (fst (check_eligibility Integrated sample_engine (Some (str ''gpt-4o''))
     unavailable gold_loan_request)) \<and>
   (\<exists>a. analysis_of (fst (check_eligibility Standalone sample_engine None unavailable
       home_loan_request)) = Inr a \<and>
     field a (str ''recommendations'') =
       JStr (str ''Based on your credit score and income, you have a good chance of approval.'') \<and>
     field a (str ''suitableBanks'') =
       JArr [JStr (str ''HDFC Bank''), JStr (str ''SBI''), JStr (str ''ICICI Bank'')])"
proof -
  obtain call1 where call1:
    "eligibility_call Standalone sample_engine None home_loan_request = Inr call1"
    using home_loan_call by blast
  obtain call2 where call2:
    "eligibility_call Integrated sample_engine (Some (str ''gpt-4o'')) gold_loan_request = Inr call2"
    using gold_loan_call by blast
  have one: "check_eligibility Standalone sample_engine None unavailable home_loan_request =
      (catch_eligibility sample_engine home_loan_request (JsError (str ''Service unavailable'')), [call1])"
    using call1 unavailable_down by (rule check_eligibility_degraded)
  have scores: "get_prop home_loan_request (str ''creditScore'') =
      get_prop gold_loan_request (str ''creditScore'')"
    by (simp add: home_loan_score gold_loan_score)
  obtain a where a: "analysis_of (fst (check_eligibility Standalone sample_engine None unavailable
       home_loan_request)) = Inr a"
    using heuristic_analysis_total [of sample_engine "int_score 720" "Fin 720"]
    by (auto simp: one analysis_of_catch home_loan_score int_score_def)
  note both = C10_degraded_analysis_by_score_only [where ?chat1.0 = unavailable
      and ?chat2.0 = unavailable, OF call1 unavailable_down call2 unavailable_down scores]
  from both [THEN conjunct2] a
  have "field a (str ''recommendations'') =
       JStr (str ''Based on your credit score and income, you have a good chance of approval.'') \<and>
     field a (str ''suitableBanks'') =
       JArr [JStr (str ''HDFC Bank''), JStr (str ''SBI''), JStr (str ''ICICI Bank'')]"
    by blast
  with both [THEN conjunct1] a show ?thesis by blast
qed

text \<open>
  C4. For every result of the document service, the extracted data has: as
  \<open>pages\<close> the number of pages, 0 without pages; as \<open>text\<close> the first 1000
  code units of the content (1000 of them when the content is longer, the content
  itself when it is not, the empty string without content); as \<open>keyValuePairs\<close>
  the first ten pairs in their order, each as its key, value and confidence, an
  absent part being the empty string or 0; and no tables. The handler answers with
  these data when the service returns the result.
\<close>

theorem C4_document_extraction:
  fixes result :: "'p analyze_result" and f :: upload
  defines "d \<equiv> extractedData f result"
    and "c \<equiv> (case content result of None \<Rightarrow> [] | Some c \<Rightarrow> c)"
    and "kvs \<equiv> (case keyValuePairs result of None \<Rightarrow> [] | Some kvs \<Rightarrow> kvs)"
  shows
    "field d (str ''pages'') =
       JNum (Fin (of_nat (case pages result of None \<Rightarrow> 0 | Some ps \<Rightarrow> length ps))) \<and>
     field d (str ''text'') = JStr (take 1000 c) \<and>
     (1000 < length c \<longrightarrow> length (take 1000 c) = 1000) \<and>
     (length c \<le> 1000 \<longrightarrow> take 1000 c = c) \<and>
     field d (str ''keyValuePairs'') = JArr (map extract_pair (take 10 kvs)) \<and>
     length (map extract_pair (take 10 kvs)) = min 10 (length kvs) \<and>
     (i < min 10 (length kvs) \<longrightarrow> map extract_pair (take 10 kvs) ! i = extract_pair (kvs ! i)) \<and>
     field (extract_pair pair) (str ''key'') =
       JStr (case kv_key pair of Some (Some k) \<Rightarrow> k | _ \<Rightarrow> []) \<and>
     field (extract_pair pair) (str ''value'') =
       JStr (case kv_value pair of Some (Some v) \<Rightarrow> v | _ \<Rightarrow> []) \<and>
     field (extract_pair pair) (str ''confidence'') =
       JNum (case kv_confidence pair of None \<Rightarrow> Fin 0 | Some x \<Rightarrow> if x = NaN then Fin 0 else x) \<and>
     field d (str ''tables'') = JArr [] \<and>
     (analyze (BeginAnalyzeDocument (str ''prebuilt-document'') (buffer f)) = Inr result \<longrightarrow>
        field (body (fst (analyze_document analyze (Some f)))) (str ''data'') = d)"
proof -
  have handler: "field (body (fst (analyze_document analyze (Some f)))) (str ''data'') = d"
    if "analyze (BeginAnalyzeDocument (str ''prebuilt-document'') (buffer f)) = Inr result"
    using that by (simp add: analyze_document_def Let_def d_def field_def get_prop_def str_def)
  show ?thesis
    unfolding d_def c_def kvs_def
    using handler [unfolded d_def]
    by (simp add: extractedData_fields extract_pair_fields)
qed

theorem C4_document_extraction_witness:
  "field (extractedData pdf_upload three_page_result) (str ''pages'') = JNum (Fin 3) \<and>
   field (extractedData pdf_upload three_page_result) (str ''text'') = JStr (replicate 1000 0x61) \<and>
   length (replicate 1000 (0x61 :: jschar)) = 1000 \<and>
   field (extractedData pdf_upload three_page_result) (str ''keyValuePairs'') =
     JArr (map extract_pair (map numbered_pair [0..<10])) \<and>
   map extract_pair (map numbered_pair [0..<10]) ! 9 = extract_pair (numbered_pair 9) \<and>
   field (extract_pair (numbered_pair 9)) (str ''key'') = JStr (decimal 9) \<and>
   field (extract_pair (numbered_pair 9)) (str ''value'') = JStr [] \<and>
   field (extract_pair (numbered_pair 9)) (str ''confidence'') = JNum (Fin 0) \<and>
   field (body (fst (analyze_document (\<lambda>call. Inr three_page_result) (Some pdf_upload))))
     (str ''data'') = extractedData pdf_upload three_page_result"
  using C4_document_extraction [where result = three_page_result and f = pdf_upload
      and i = 9 and pair = "numbered_pair 9" and analyze = "\<lambda>call. Inr three_page_result"]
  by (simp add: three_page_result_parts take_map numbered_pair_def)

text \<open>
  C5. Without a file the handler answers 400 with \<open>success\<close> false and calls no
  service; with a file it makes the one call to the document service. A call is
  made exactly when a file is present.
\<close>

theorem C5_missing_file_rejected:
  "analyze_document analyze None =
     (\<lparr>status = 400,
       body = JObj [(str ''success'', JBool False),
                    (str ''error'', JStr (str ''No document uploaded''))]\<rparr>, []) \<and>
   snd (analyze_document analyze (Some f)) =
     [BeginAnalyzeDocument (str ''prebuilt-document'') (buffer f)] \<and>
   (snd (analyze_document analyze upl) \<noteq> []) = (upl \<noteq> None)"
  by (cases upl) (simp_all add: analyze_document_def Let_def)

text \<open>
  C7, as claimed: the data of a degraded document response have the five fields of
  a document extraction. They have neither \<open>keyValuePairs\<close> nor \<open>tables\<close>.
\<close>

theorem C7_degraded_data_counterexample:
  "\<not> has_field
      (field (body (fst (analyze_document_untyped type_error_text unavailable (Some pdf_upload))))
        (str ''data''))
      (str ''keyValuePairs'') \<and>
   \<not> has_field
      (field (body (fst (analyze_document_untyped type_error_text unavailable (Some pdf_upload))))
        (str ''data''))
      (str ''tables'')"
  by (simp add: data_of_unavailable fallback_data_fields)

text \<open>
  C7, amended. When the call to the document service throws, or the normalization
  of its result throws, the handler answers 200 with \<open>success\<close> true,
  \<open>aiPowered\<close> false, the message of the exception as \<open>error\<close>, and data made
  of local defaults with four fields: the mime type of the upload (\<^verbatim>\<open>unknown\<close>
  when it is empty) as \<open>documentType\<close>, 1 as \<open>pages\<close>, a fixed \<open>text\<close> and a
  fixed \<open>message\<close>.
\<close>

theorem C7_degraded_document:
  assumes "analyze (BeginAnalyzeDocument (str ''prebuilt-document'') (buffer f)) = Inl error \<or>
    (\<exists>result. analyze (BeginAnalyzeDocument (str ''prebuilt-document'') (buffer f)) = Inr result \<and>
       normalize type_error f result = Inl error)"
  shows "analyze_document_untyped type_error analyze (Some f) =
    (\<lparr>status = 200,
      body = JObj
        [(str ''success'', JBool True),
         (str ''data'', JObj
           [(str ''documentType'',
             JStr (if mimetype f = [] then str ''unknown'' else mimetype f)),
            (str ''pages'', JNum (Fin 1)),
            (str ''text'', JStr (str ''Document received and validated'')),
            (str ''message'', JStr (str ''Document appears clear and readable''))]),
         (str ''aiPowered'', JBool False),
         (str ''error'', JStr (message error))]\<rparr>,
     [BeginAnalyzeDocument (str ''prebuilt-document'') (buffer f)])"
proof -
  from assms
  have "and_then (analyze (BeginAnalyzeDocument (str ''prebuilt-document'') (buffer f)))
      (normalize type_error f) = Inl error"
    by (auto simp: and_then_def)
  then show ?thesis
    by (simp add: analyze_document_untyped_degraded fallback_data_def)
qed

theorem C7_degraded_document_witness:
  "fst (analyze_document_untyped type_error_text unavailable (Some pdf_upload)) =
    \<lparr>status = 200,
      body = JObj
        [(str ''success'', JBool True),
         (str ''data'', JObj
           [(str ''documentType'', JStr (str ''application/pdf'')),
            (str ''pages'', JNum (Fin 1)),
            (str ''text'', JStr (str ''Document received and validated'')),
            (str ''message'', JStr (str ''Document appears clear and readable''))]),
         (str ''aiPowered'', JBool False),
         (str ''error'', JStr (str ''Service unavailable''))]\<rparr> \<and>
   normalize type_error_text pdf_upload null_pair_result =
     Inl (JsError (str ''TypeError at '' @ str ''pair.key'')) \<and>
   fst (analyze_document_untyped type_error_text (returning null_pair_result) (Some pdf_upload)) =
    \<lparr>status = 200,
      body = JObj
        [(str ''success'', JBool True),
         (str ''data'', JObj
           [(str ''documentType'', JStr (str ''application/pdf'')),
            (str ''pages'', JNum (Fin 1)),
            (str ''text'', JStr (str ''Document received and validated'')),
            (str ''message'', JStr (str ''Document appears clear and readable''))]),
         (str ''aiPowered'', JBool False),
         (str ''error'', JStr (str ''TypeError at '' @ str ''pair.key''))]\<rparr>"
  using
    C7_degraded_document [where analyze = unavailable and f = pdf_upload
      and error = "JsError (str ''Service unavailable'')" and type_error = type_error_text]
    C7_degraded_document [where analyze = "returning null_pair_result" and f = pdf_upload
      and error = "JsError (str ''TypeError at '' @ str ''pair.key'')"
      and type_error = type_error_text]
    normalize_null_pair [of type_error_text pdf_upload]
  by (simp add: unavailable_def returning_def type_error_text_def pdf_upload_def str_def)

text \<open>
  C9 does not hold of the code: the two entry points differ in every prompt and in
  the degraded answer of the recommendations handler. When the chat service is
  down, the recommendations handlers of the two entry points answer differently
  (the \<open>amountRange\<close> of \<^verbatim>\<open>integrated-server.js\<close> starts with U+00E2 U+201A
  U+00B9 where that of \<^verbatim>\<open>server.js\<close> starts with the rupee sign). The prompts
  of the two entry points agree only when none is built, that is when a ToString of
  a field throws.
\<close>

theorem C9_entry_points_differ:
  "fst (loan_recommendations Standalone eng env unavailable req) \<noteq>
   fst (loan_recommendations Integrated eng env unavailable req) \<and>
   (eligibility_prompt Standalone eng req = eligibility_prompt Integrated eng req) =
     (\<exists>e. eligibility_prompt Standalone eng req = Inl e) \<and>
   (recommendations_prompt Standalone eng req = recommendations_prompt Integrated eng req) =
     (\<exists>e. recommendations_prompt Standalone eng req = Inl e)"
  using fallback_recommendations_differ eligibility_prompts_agree_iff [of eng req]
    recommendations_prompts_agree_iff [of eng req]
  by (simp add: loan_recommendations_unavailable)

end
